theory Spec2Isabelle
  imports Complex_Main
begin

section \<open>Python values used by the pipeline\<close>

text \<open>
  A Python \<open>str\<close> is modelled as a \<open>string\<close> whose characters are the code points
  0..255.  The exceptions the modelled code can raise are values of \<open>error\<close>; a call
  that can raise returns \<open>error + 'a\<close> with \<open>Inl\<close> for the exception.
  \<open>ExternalError\<close> stands for whatever an external collaborator (PDF reader, embedding
  provider, vector index, language model loader, file system) raises, with its message.
\<close>

datatype error =
    ValueError string
  | AttributeError string
  | IndexError string
  | TypeError string
  | ExternalError string

text \<open>\<open>str(e)\<close>: every exception carries its message.\<close>

fun str_of_error :: "error \<Rightarrow> string" where
  "str_of_error (ValueError m) = m"
| "str_of_error (AttributeError m) = m"
| "str_of_error (IndexError m) = m"
| "str_of_error (TypeError m) = m"
| "str_of_error (ExternalError m) = m"

text \<open>\<open>str(n)\<close> of a non-negative integer: its decimal digits.\<close>

definition digit :: "nat \<Rightarrow> char" where
  "digit d = ''0123456789'' ! d"

fun str_nat :: "nat \<Rightarrow> string" where
  "str_nat n = (if n < 10 then [digit n] else str_nat (n div 10) @ [digit (n mod 10)])"

declare str_nat.simps [simp del]

subsection \<open>\<open>str.isspace\<close>, \<open>str.split()\<close>, \<open>' '.join\<close>, \<open>str.strip()\<close>\<close>

text \<open>
  The code points below 256 that Python treats as whitespace (\<open>str.isspace\<close>, the
  separator set of \<open>str.split()\<close> and \<open>str.strip()\<close>, and \<open>\s\<close> of \<open>re\<close> on \<open>str\<close> patterns):
  TAB, LF, VT, FF, CR, FS, GS, RS, US, SPACE, NEL and NBSP.
\<close>

definition isspace :: "char \<Rightarrow> bool" where
  "isspace c = (c = CHR 0x09 \<or> c = CHR 0x0A \<or> c = CHR 0x0B \<or> c = CHR 0x0C \<or> c = CHR 0x0D
     \<or> c = CHR 0x1C \<or> c = CHR 0x1D \<or> c = CHR 0x1E \<or> c = CHR 0x1F \<or> c = CHR 0x20
     \<or> c = CHR 0x85 \<or> c = CHR 0xA0)"

text \<open>
  \<open>text.split()\<close> with no separator: the maximal runs of non-whitespace characters, in
  order.  \<open>split_words cur s\<close> scans \<open>s\<close> with the word read so far in \<open>cur\<close>.
\<close>

fun split_words :: "string \<Rightarrow> string \<Rightarrow> string list" where
  "split_words cur [] = (if cur = [] then [] else [cur])"
| "split_words cur (c # cs) =
     (if isspace c then (if cur = [] then split_words [] cs else cur # split_words [] cs)
      else split_words (cur @ [c]) cs)"

definition str_split :: "string \<Rightarrow> string list" where
  "str_split s = split_words [] s"

text \<open>\<open>' '.join(ws)\<close>.\<close>

fun join_space :: "string list \<Rightarrow> string" where
  "join_space [] = []"
| "join_space [w] = w"
| "join_space (w # v # ws) = w @ CHR '' '' # join_space (v # ws)"

text \<open>\<open>s.strip()\<close>: whitespace removed at both ends.\<close>

definition strip :: "string \<Rightarrow> string" where
  "strip s = rev (dropWhile isspace (rev (dropWhile isspace s)))"

subsection \<open>Slices and \<open>range\<close>\<close>

text \<open>
  The bounds of a slice \<open>xs[start:stop]\<close> are adjusted as Python does: a negative bound
  counts from the end, and both are clamped to \<open>0..len(xs)\<close>.  A slice never raises.
\<close>

definition slice_index :: "nat \<Rightarrow> int \<Rightarrow> nat" where
  "slice_index len i = (if i < 0 then nat (max 0 (int len + i)) else min len (nat i))"

definition py_slice :: "'a list \<Rightarrow> int \<Rightarrow> int \<Rightarrow> 'a list" where
  "py_slice xs start stop =
     (let a = slice_index (length xs) start; b = slice_index (length xs) stop
      in take (b - a) (drop a xs))"

text \<open>\<open>xs[start:]\<close>.\<close>

definition py_slice_from :: "'a list \<Rightarrow> int \<Rightarrow> 'a list" where
  "py_slice_from xs start = drop (slice_index (length xs) start) xs"

text \<open>
  \<open>range(start, stop, step)\<close>: a zero step raises \<open>ValueError\<close>; a positive step counts up
  while the value is below \<open>stop\<close>, a negative step counts down while it is above.
\<close>

function range_loop :: "int \<Rightarrow> int \<Rightarrow> int \<Rightarrow> int list" where
  "range_loop i stop step =
     (if (0 < step \<and> i < stop) \<or> (step < 0 \<and> stop < i)
      then i # range_loop (i + step) stop step else [])"
  by pat_completeness auto
termination
  by (relation "measure (\<lambda>(i, stop, step). nat (if 0 < step then stop - i else i - stop))") auto

declare range_loop.simps [simp del]

definition py_range :: "int \<Rightarrow> int \<Rightarrow> int \<Rightarrow> error + int list" where
  "py_range start stop step =
     (if step = 0 then Inl (ValueError ''range() arg 3 must not be zero'')
      else Inr (range_loop start stop step))"

section \<open>\<open>PDFProcessor\<close> (utils/pdf_utils.py)\<close>

text \<open>
  \<open>split_text_into_chunks(text, chunk_size=500, overlap=50)\<close>:
  \<^verbatim>\<open>
    words = text.split()
    chunks = []
    for i in range(0, len(words), chunk_size - overlap):
        chunk = ' '.join(words[i:i + chunk_size])
        chunks.append(chunk)
    return chunks
  \<close>
  The \<open>for\<close> loop is a left fold over the values of the range that appends one chunk
  per value.
\<close>

definition split_text_into_chunks :: "string \<Rightarrow> int \<Rightarrow> int \<Rightarrow> error + string list" where
  "split_text_into_chunks text chunk_size overlap =
     (let words = str_split text in
      case py_range 0 (int (length words)) (chunk_size - overlap) of
        Inl e \<Rightarrow> Inl e
      | Inr is \<Rightarrow>
          Inr (foldl (\<lambda>chunks i. chunks @ [join_space (py_slice words i (i + chunk_size))]) [] is))"

text \<open>
  \<open>re.sub(r'\s+', ' ', text)\<close>: every maximal run of whitespace becomes one space.
  \<open>in_run\<close> says that the character before was whitespace, already replaced.
\<close>

fun sub_whitespace :: "bool \<Rightarrow> string \<Rightarrow> string" where
  "sub_whitespace in_run [] = []"
| "sub_whitespace in_run (c # cs) =
     (if isspace c
      then (if in_run then sub_whitespace True cs else CHR '' '' # sub_whitespace True cs)
      else c # sub_whitespace False cs)"

definition ascii_letter :: "char \<Rightarrow> bool" where
  "ascii_letter c = (c \<in> set ''abcdefghijklmnopqrstuvwxyzABCDEFGHIJKLMNOPQRSTUVWXYZ'')"

definition ascii_digit :: "char \<Rightarrow> bool" where
  "ascii_digit c = (c \<in> set ''0123456789'')"

text \<open>
  \<open>clean_text(text)\<close> of \<open>PDFProcessor\<close>:
  \<^verbatim>\<open>
    text = re.sub(r'\s+', ' ', text)
    text = re.sub(r'[^a-zA-Z0-9\s.,]', '', text)
    return text.strip()
  \<close>
\<close>

definition PDFProcessor_clean_text :: "string \<Rightarrow> string" where
  "PDFProcessor_clean_text text =
     (let text = sub_whitespace False text;
          text = filter (\<lambda>c. ascii_letter c \<or> ascii_digit c \<or> isspace c
                              \<or> c = CHR ''.'' \<or> c = CHR '','') text
      in strip text)"

section \<open>\<open>TextPreprocessor\<close> (utils/text_preprocessing.py)\<close>

text \<open>
  The spaCy pipeline \<open>self.nlp\<close> is an external language model: a function from a text to
  its tokens, each with its text, its stop-word flag and its lemma.
\<close>

record token =
  tok_text :: string
  tok_is_stop :: bool
  tok_lemma :: string

type_synonym language_model = "string \<Rightarrow> token list"

text \<open>
  \<open>str.lower()\<close> on the code points below 256: \<open>A\<close>..\<open>Z\<close> and the capital letters
  U+00C0..U+00DE (without the multiplication sign U+00D7) move up by 32.
\<close>

definition lower_char :: "char \<Rightarrow> char" where
  "lower_char c =
     (let n = (of_char c :: nat) in
      if (65 \<le> n \<and> n \<le> 90) \<or> (192 \<le> n \<and> n \<le> 222 \<and> n \<noteq> 215) then char_of (n + 32) else c)"

text \<open>
  \<open>clean_text(text)\<close> of \<open>TextPreprocessor\<close>:
  \<^verbatim>\<open>
    text = text.lower()
    text = re.sub(r'[^a-zA-Z\s]', '', text)
    text = re.sub(r'\s+', ' ', text).strip()
  \<close>
\<close>

definition TextPreprocessor_clean_text :: "string \<Rightarrow> string" where
  "TextPreprocessor_clean_text text =
     (let text = map lower_char text;
          text = filter (\<lambda>c. ascii_letter c \<or> isspace c) text
      in strip (sub_whitespace False text))"

definition tokenize :: "language_model \<Rightarrow> string \<Rightarrow> string list" where
  "tokenize nlp text = map tok_text (nlp text)"

definition remove_stopwords :: "language_model \<Rightarrow> string list \<Rightarrow> string list" where
  "remove_stopwords nlp tokens =
     map tok_text (filter (\<lambda>token. \<not> tok_is_stop token) (nlp (join_space tokens)))"

definition lemmatize :: "language_model \<Rightarrow> string list \<Rightarrow> string list" where
  "lemmatize nlp tokens = map tok_lemma (nlp (join_space tokens))"

definition preprocess_pipeline :: "language_model \<Rightarrow> string \<Rightarrow> string list" where
  "preprocess_pipeline nlp text =
     (let cleaned_text = TextPreprocessor_clean_text text;
          tokens = tokenize nlp cleaned_text;
          filtered_tokens = remove_stopwords nlp tokens;
          lemmatized_tokens = lemmatize nlp filtered_tokens
      in lemmatized_tokens)"

section \<open>\<open>DimensionReducer\<close> (utils/dimension_reducer.py)\<close>

text \<open>
  An embedding matrix is the list of its rows; the floating-point entries are taken as
  real numbers.  \<open>embeddings.shape[1]\<close> is the length of a row; an array with no row is
  one-dimensional, and asking for its second dimension raises \<open>IndexError\<close>.
\<close>

type_synonym matrix = "real list list"

text \<open>
  \<open>np.array(rows)\<close> of a list of lists of numbers: rows of one length give the
  two-dimensional array of these rows (no row at all gives the empty one-dimensional
  array); rows of unequal length raise \<open>ValueError\<close>.
\<close>

definition np_array :: "real list list \<Rightarrow> error + matrix" where
  "np_array rows =
     (case rows of
        [] \<Rightarrow> Inr []
      | row # _ \<Rightarrow>
          if list_all (\<lambda>r. length r = length row) rows then Inr rows
          else Inl (ValueError (''setting an array element with a sequence. The requested array has an ''
                 @ ''inhomogeneous shape after 1 dimensions. The detected shape was (''
                 @ str_nat (length rows) @ '',) + inhomogeneous part.'')))"

definition shape1 :: "matrix \<Rightarrow> error + nat" where
  "shape1 X = (case X of [] \<Rightarrow> Inl (IndexError ''tuple index out of range'')
               | row # _ \<Rightarrow> Inr (length row))"

text \<open>
  \<open>PCA(n_components=c).fit_transform(X)\<close> of scikit-learn, for an integer \<open>c\<close>.  The library
  checks its input before it computes anything: the array must be two-dimensional with
  at least one sample and one feature, and \<open>c\<close> must lie between 0 and
  \<open>min(n_samples, n_features)\<close>; otherwise it raises \<open>ValueError\<close>.  Two things of the
  library stay parameters: the numbers of an accepted call, \<open>project c X\<close>, and the text
  of the message of a refused call, \<open>refusal c X\<close>.
\<close>

definition pca_fit_transform ::
    "(nat \<Rightarrow> matrix \<Rightarrow> matrix) \<Rightarrow> (int \<Rightarrow> matrix \<Rightarrow> string) \<Rightarrow> int \<Rightarrow> matrix \<Rightarrow> error + matrix" where
  "pca_fit_transform project refusal n_components X =
     (case X of
        [] \<Rightarrow> Inl (ValueError (refusal n_components X))
      | row # _ \<Rightarrow>
          (let n_samples = length X; n_features = length row in
           if 0 < n_features \<and> 0 \<le> n_components \<and> n_components \<le> int (min n_samples n_features)
           then Inr (project (nat n_components) X)
           else Inl (ValueError (refusal n_components X))))"

text \<open>
  \<open>reduce_dimensions(embeddings, target_dimensions=128)\<close>:
  \<^verbatim>\<open>
    target_dimensions = min(target_dimensions, embeddings.shape[1])
    pca = PCA(n_components=target_dimensions)
    reduced_embeddings = pca.fit_transform(embeddings)
    return reduced_embeddings
  \<close>
  The \<open>except\<close> clause prints and raises the exception again.
\<close>

definition reduce_dimensions ::
    "(nat \<Rightarrow> matrix \<Rightarrow> matrix) \<Rightarrow> (int \<Rightarrow> matrix \<Rightarrow> string) \<Rightarrow> matrix \<Rightarrow> int \<Rightarrow> error + matrix" where
  "reduce_dimensions project refusal embeddings target_dimensions =
     (case shape1 embeddings of
        Inl e \<Rightarrow> Inl e
      | Inr d \<Rightarrow>
          (let target_dimensions = min target_dimensions (int d)
           in pca_fit_transform project refusal target_dimensions embeddings))"

section \<open>External collaborators and their calls\<close>

datatype input_type = search_document | search_query

record index_stats =
  total_vector_count :: nat
  dimension :: nat
  index_fullness :: real

record match =
  match_id :: string
  match_score :: real

text \<open>The calls the program makes to its collaborators, with their arguments.\<close>

datatype call =
    FileWrite string string
  | FileRemove string
  | PdfRead string
  | PineconeInit
  | PineconeListIndexes
  | PineconeCreateIndex string nat string
  | PineconeIndex string
  | CohereClient
  | SpacyLoad string
  | CohereEmbed "string list" input_type
  | IndexUpsert "(string \<times> real list) list"
  | IndexQuery "real list" int bool
  | IndexDelete "string list"
  | IndexDescribeStats

text \<open>
  What the collaborators answer: the file system, the PDF reader (the texts of the pages
  of a file), the environment variable \<open>PINECONE_INDEX_NAME\<close>, the vector index service,
  the embedding provider, the loader of the language model, and the two parameters of
  the PCA.
\<close>

record env =
  file_write :: "string \<Rightarrow> string \<Rightarrow> error + unit"
  file_remove :: "string \<Rightarrow> error + unit"
  pdf_pages :: "string \<Rightarrow> error + string list"
  getenv_index_name :: "string option"
  pinecone_init :: "error + unit"
  pinecone_list_indexes :: "error + string list"
  pinecone_create_index :: "string \<Rightarrow> nat \<Rightarrow> string \<Rightarrow> error + unit"
  pinecone_Index :: "string \<Rightarrow> error + unit"
  cohere_Client :: "error + unit"
  spacy_load :: "string \<Rightarrow> error + language_model"
  co_embed :: "string list \<Rightarrow> input_type \<Rightarrow> error + real list list"
  pca_project :: "nat \<Rightarrow> matrix \<Rightarrow> matrix"
  pca_refusal :: "int \<Rightarrow> matrix \<Rightarrow> string"
  index_upsert :: "(string \<times> real list) list \<Rightarrow> error + unit"
  index_query :: "real list \<Rightarrow> int \<Rightarrow> bool \<Rightarrow> error + match list"
  index_delete :: "string list \<Rightarrow> error + unit"
  index_describe_stats :: "error + index_stats"

text \<open>
  A computation returns its result, or the exception it raised, together with the calls
  it made to the collaborators, in order.  \<open>bind_io\<close> runs the second computation after
  the first unless the first raised.
\<close>

type_synonym 'a io = "(error + 'a) \<times> call list"

definition return_io :: "'a \<Rightarrow> 'a io" where
  "return_io x = (Inr x, [])"

definition lift_io :: "error + 'a \<Rightarrow> 'a io" where
  "lift_io r = (r, [])"

definition external :: "call \<Rightarrow> error + 'a \<Rightarrow> 'a io" where
  "external c r = (r, [c])"

definition bind_io :: "'a io \<Rightarrow> ('a \<Rightarrow> 'b io) \<Rightarrow> 'b io" where
  "bind_io m f =
     (case m of
        (Inl e, calls) \<Rightarrow> (Inl e, calls)
      | (Inr x, calls) \<Rightarrow> (case f x of (r, calls') \<Rightarrow> (r, calls @ calls')))"

text \<open>
  \<open>extract_text_from_pdf(file_path)\<close> of \<open>PDFProcessor\<close>: the texts of the pages, each
  followed by a newline, concatenated and stripped.
\<close>

definition extract_text_from_pdf :: "env \<Rightarrow> string \<Rightarrow> string io" where
  "extract_text_from_pdf env file_path =
     bind_io (external (PdfRead file_path) (pdf_pages env file_path)) (\<lambda>pages.
     return_io (strip (foldl (\<lambda>text page. text @ page @ [CHR 0x0A]) [] pages)))"

section \<open>\<open>EmbeddingGenerator\<close> (utils/embedding_utils.py)\<close>

definition EmbeddingGenerator_init :: "env \<Rightarrow> unit io" where
  "EmbeddingGenerator_init env = external CohereClient (cohere_Client env)"

text \<open>
  \<open>generate_embeddings(texts)\<close>:
  \<^verbatim>\<open>
    embeddings = self.co.embed(texts=texts, model='embed-english-v2.0',
                               input_type='search_document')
    return np.array(embeddings.embeddings)
  \<close>
\<close>

definition generate_embeddings :: "env \<Rightarrow> string list \<Rightarrow> matrix io" where
  "generate_embeddings env texts =
     bind_io (external (CohereEmbed texts search_document) (co_embed env texts search_document))
       (\<lambda>embeddings.
     lift_io (np_array embeddings))"

text \<open>
  The second argument of \<open>similarity_search\<close> is documented as the list of the document
  embeddings; the request handler passes the statistics object of the index instead.
  \<open>np.dot(embedded_docs, query_embedding)\<close> first makes arrays of its arguments:
  \<^item> the statistics object is refused with \<open>ValueError\<close>;
  \<^item> rows of unequal length are refused as by \<open>np.array\<close>;
  \<^item> \<open>n\<close> rows of length \<open>d\<close> and a vector of length \<open>d\<close> give the \<open>n\<close> dot products;
  \<^item> no row at all is the empty one-dimensional array: with the empty vector the
    product is the number 0, whose \<open>argsort\<close> is \<open>[0]\<close>, as for the list \<open>[0]\<close>;
  \<^item> lengths that do not fit raise \<open>ValueError\<close>.
\<close>

datatype np_operand = Embeddings "real list list" | Stats index_stats

definition dot :: "real list \<Rightarrow> real list \<Rightarrow> real" where
  "dot u v = sum_list (map2 (*) u v)"

fun np_dot :: "np_operand \<Rightarrow> real list \<Rightarrow> error + real list" where
  "np_dot (Stats s) q = Inl (ValueError ''invalid __array_struct__'')"
| "np_dot (Embeddings rows) q =
     (case np_array rows of
        Inl e \<Rightarrow> Inl e
      | Inr [] \<Rightarrow>
          if q = [] then Inr [0]
          else Inl (ValueError (''shapes (0,) and ('' @ str_nat (length q) @ '',) not aligned: 0 (dim 0) != ''
                 @ str_nat (length q) @ '' (dim 0)''))
      | Inr (row # others) \<Rightarrow>
          if length row = length q then Inr (map (\<lambda>r. dot r q) (row # others))
          else Inl (ValueError (''shapes ('' @ str_nat (length (row # others)) @ '','' @ str_nat (length row)
                 @ '') and ('' @ str_nat (length q) @ '',) not aligned: '' @ str_nat (length row)
                 @ '' (dim 1) != '' @ str_nat (length q) @ '' (dim 0)'')))"

text \<open>
  \<open>similarities.argsort()\<close>: the indices in ascending order of their values (indices of
  equal values are kept in index order here; numpy leaves their order open).
\<close>

definition argsort :: "real list \<Rightarrow> nat list" where
  "argsort xs = sort_key (\<lambda>i. xs ! i) [0..<length xs]"

text \<open>
  \<open>similarity_search(query, embedded_docs, top_k=3)\<close>:
  \<^verbatim>\<open>
    query_embedding = self.co.embed(texts=[query], model='embed-english-v2.0',
                                    input_type='search_query').embeddings[0]
    similarities = np.dot(embedded_docs, query_embedding)
    return similarities.argsort()[-top_k:][::-1]
  \<close>
\<close>

definition similarity_search :: "env \<Rightarrow> string \<Rightarrow> np_operand \<Rightarrow> int \<Rightarrow> nat list io" where
  "similarity_search env query embedded_docs top_k =
     bind_io (external (CohereEmbed [query] search_query) (co_embed env [query] search_query))
       (\<lambda>embeddings.
     bind_io (lift_io (case embeddings of
                         [] \<Rightarrow> Inl (IndexError ''list index out of range'')
                       | query_embedding # _ \<Rightarrow> Inr query_embedding))
       (\<lambda>query_embedding.
     bind_io (lift_io (np_dot embedded_docs query_embedding))
       (\<lambda>similarities.
     return_io (rev (py_slice_from (argsort similarities) (- top_k))))))"

section \<open>\<open>PineconeVectorStore\<close> (utils/pinecone_utils.py)\<close>

text \<open>
  The store object holds the name of its index and the language model of its
  \<open>TextPreprocessor\<close>; its other attributes are handles of the collaborators.
\<close>

record vector_store =
  index_name :: string
  nlp :: language_model

definition TextPreprocessor_init :: "env \<Rightarrow> string \<Rightarrow> language_model io" where
  "TextPreprocessor_init env language =
     external (SpacyLoad (language @ ''_core_web_sm'')) (spacy_load env (language @ ''_core_web_sm''))"

definition create_index_if_not_exists :: "env \<Rightarrow> string \<Rightarrow> nat \<Rightarrow> string \<Rightarrow> unit io" where
  "create_index_if_not_exists env name vec_dim metric =
     bind_io (external PineconeListIndexes (pinecone_list_indexes env)) (\<lambda>indexes.
     if name \<notin> set indexes
     then external (PineconeCreateIndex name vec_dim metric) (pinecone_create_index env name vec_dim metric)
     else return_io ())"

text \<open>
  \<open>PineconeVectorStore(index_name=None, dimension=768, metric='cosine')\<close>; the name is
  \<open>index_name or os.getenv("PINECONE_INDEX_NAME", "pdf-qa-index")\<close>.
\<close>

definition PineconeVectorStore_init :: "env \<Rightarrow> string option \<Rightarrow> nat \<Rightarrow> string \<Rightarrow> vector_store io" where
  "PineconeVectorStore_init env index_name_arg vec_dim metric =
     bind_io (external PineconeInit (pinecone_init env)) (\<lambda>_.
     let from_env = (case getenv_index_name env of None \<Rightarrow> ''pdf-qa-index'' | Some v \<Rightarrow> v);
         name = (case index_name_arg of
                   None \<Rightarrow> from_env
                 | Some n \<Rightarrow> if n = [] then from_env else n)
     in
     bind_io (create_index_if_not_exists env name vec_dim metric) (\<lambda>_.
     bind_io (external (PineconeIndex name) (pinecone_Index env name)) (\<lambda>_.
     bind_io (EmbeddingGenerator_init env) (\<lambda>_.
     bind_io (TextPreprocessor_init env ''en'') (\<lambda>model.
     return_io \<lparr>index_name = name, nlp = model\<rparr>)))))"

text \<open>
  \<open>upsert_documents(documents, reduce_dimensions=False, target_dimension=128)\<close>:
  \<^verbatim>\<open>
    preprocessed_docs = [' '.join(self.text_preprocessor.preprocess_pipeline(doc))
                         for doc in documents]
    embeddings = self.embedding_generator.generate_embeddings(preprocessed_docs)
    if reduce_dimensions:
        embeddings = self.dimension_reducer.reduce_dimensions(
            embeddings, target_dimensions=target_dimension)
    vectors = [(str(idx), embedding.tolist()) for idx, embedding in enumerate(embeddings)]
    upsert_response = self.index.upsert(vectors)
    return len(vectors)
  \<close>
\<close>

definition upsert_documents :: "env \<Rightarrow> vector_store \<Rightarrow> string list \<Rightarrow> bool \<Rightarrow> int \<Rightarrow> nat io" where
  "upsert_documents env self documents reduce target_dimension =
     (let preprocessed_docs = map (\<lambda>doc. join_space (preprocess_pipeline (nlp self) doc)) documents in
      bind_io (generate_embeddings env preprocessed_docs) (\<lambda>embeddings.
      bind_io (if reduce
               then lift_io (reduce_dimensions (pca_project env) (pca_refusal env) embeddings
                               target_dimension)
               else return_io embeddings) (\<lambda>embeddings.
      let vectors = map (\<lambda>(idx, embedding). (str_nat idx, embedding)) (enumerate 0 embeddings) in
      bind_io (external (IndexUpsert vectors) (index_upsert env vectors)) (\<lambda>upsert_response.
      return_io (length vectors)))))"

text \<open>\<open>query_index(query, top_k=5, include_metadata=False)\<close>.\<close>

definition query_index :: "env \<Rightarrow> vector_store \<Rightarrow> string \<Rightarrow> int \<Rightarrow> bool \<Rightarrow> match list io" where
  "query_index env self query top_k include_metadata =
     (let preprocessed_query = join_space (preprocess_pipeline (nlp self) query) in
      bind_io (generate_embeddings env [preprocessed_query]) (\<lambda>embeddings.
      bind_io (lift_io (case embeddings of
                          [] \<Rightarrow> Inl (IndexError ''index 0 is out of bounds for axis 0 with size 0'')
                        | query_embedding # _ \<Rightarrow> Inr query_embedding)) (\<lambda>query_embedding.
      external (IndexQuery query_embedding top_k include_metadata)
        (index_query env query_embedding top_k include_metadata))))"

definition delete_vectors :: "env \<Rightarrow> vector_store \<Rightarrow> string list \<Rightarrow> unit io" where
  "delete_vectors env self vector_ids = external (IndexDelete vector_ids) (index_delete env vector_ids)"

text \<open>
  The attributes of a \<open>PineconeVectorStore\<close> object: the methods of the class and the
  fields its constructor sets.  Looking up any other name raises \<open>AttributeError\<close>.
\<close>

definition PineconeVectorStore_attributes :: "string list" where
  "PineconeVectorStore_attributes =
     [''_create_index_if_not_exists'', ''upsert_documents'', ''query_index'', ''delete_vectors'',
      ''get_index_stats'', ''list_available_indexes'',
      ''index_name'', ''index'', ''embedding_generator'', ''text_preprocessor'', ''dimension_reducer'']"

definition getattr_vector_store :: "string \<Rightarrow> error + string" where
  "getattr_vector_store name =
     (if name \<in> set PineconeVectorStore_attributes then Inr name
      else Inl (AttributeError (CHR 0x27 # ''PineconeVectorStore'' @ CHR 0x27 # '' object has no attribute ''
                                  @ CHR 0x27 # name @ [CHR 0x27])))"

text \<open>
  A call \<open>vector_store.<attribute>(text_chunks)\<close> with the list of chunks as its only
  argument: \<open>upsert_documents\<close> and \<open>delete_vectors\<close> take such a list; \<open>query_index\<close>
  fails on it in \<open>text.lower()\<close>; the other attributes cannot be called this way.
\<close>

definition call_with_chunks :: "env \<Rightarrow> vector_store \<Rightarrow> string \<Rightarrow> string list \<Rightarrow> unit io" where
  "call_with_chunks env self attribute text_chunks =
     (if attribute = ''upsert_documents''
      then bind_io (upsert_documents env self text_chunks False 128) (\<lambda>_. return_io ())
      else if attribute = ''delete_vectors'' then delete_vectors env self text_chunks
      else if attribute = ''query_index''
      then lift_io (Inl (AttributeError (CHR 0x27 # ''list'' @ CHR 0x27 # '' object has no attribute ''
                                           @ CHR 0x27 # ''lower'' @ [CHR 0x27])))
      else lift_io (Inl (TypeError ''not callable with one positional argument'')))"

section \<open>The request handlers (main.py)\<close>

text \<open>
  The two module-level variables \<open>current_pdf_processor\<close> and \<open>current_vector_store\<close>, both
  \<open>None\<close> when the module is loaded.  A response is the dictionary the handler returns,
  with its keys in order.
\<close>

record app_state =
  current_pdf_processor :: "unit option"
  current_vector_store :: "vector_store option"

definition initial_state :: app_state where
  "initial_state = \<lparr>current_pdf_processor = None, current_vector_store = None\<rparr>"

record upload_file =
  filename :: string
  content :: string

type_synonym response = "(string \<times> string) list"

text \<open>
  \<open>upload_pdf(file)\<close>:
  \<^verbatim>\<open>
    try:
        temp_path = f"temp_{file.filename}"
        with open(temp_path, "wb") as buffer:
            buffer.write(await file.read())
        pdf_processor = PDFProcessor()
        text = pdf_processor.extract_text_from_pdf(temp_path)
        cleaned_text = pdf_processor.clean_text(text)
        text_chunks = pdf_processor.split_text_into_chunks(cleaned_text)
        vector_store = PineconeVectorStore()
        vector_store.upsert_embeddings(text_chunks)
        current_pdf_processor = pdf_processor
        current_vector_store = vector_store
        os.remove(temp_path)
        return {"status": "success",
                "message": f"PDF processed. {len(text_chunks)} chunks created."}
    except Exception as e:
        return {"status": "error", "message": f"Error processing PDF: {str(e)}"}
  \<close>
  The handler returns its response, the new values of the module variables and the
  calls it made.
\<close>

definition upload_pdf :: "env \<Rightarrow> app_state \<Rightarrow> upload_file \<Rightarrow> (response \<times> app_state) \<times> call list" where
  "upload_pdf env st file =
     (let temp_path = ''temp_'' @ filename file;
          failed = (\<lambda>e. [(''status'', ''error''),
                          (''message'', ''Error processing PDF: '' @ str_of_error e)])
      in
      case
        bind_io (external (FileWrite temp_path (content file))
                   (file_write env temp_path (content file))) (\<lambda>_.
        bind_io (extract_text_from_pdf env temp_path) (\<lambda>text.
        let cleaned_text = PDFProcessor_clean_text text in
        bind_io (lift_io (split_text_into_chunks cleaned_text 500 50)) (\<lambda>text_chunks.
        bind_io (PineconeVectorStore_init env None 768 ''cosine'') (\<lambda>vector_store.
        bind_io (lift_io (getattr_vector_store ''upsert_embeddings'')) (\<lambda>attribute.
        bind_io (call_with_chunks env vector_store attribute text_chunks) (\<lambda>_.
        return_io (vector_store, text_chunks)))))))
      of
        (Inl e, calls) \<Rightarrow> ((failed e, st), calls)
      | (Inr (vector_store, text_chunks), calls) \<Rightarrow>
          (let st' = st\<lparr>current_pdf_processor := Some (), current_vector_store := Some vector_store\<rparr>
           in case file_remove env temp_path of
                Inl e \<Rightarrow> ((failed e, st'), calls @ [FileRemove temp_path])
              | Inr _ \<Rightarrow>
                  (([(''status'', ''success''),
                     (''message'', ''PDF processed. '' @ str_nat (length text_chunks) @ '' chunks created.'')],
                    st'), calls @ [FileRemove temp_path])))"

text \<open>
  \<open>ask_question(request)\<close>:
  \<^verbatim>\<open>
    if not current_vector_store:
        return {"status": "error", "message": "No PDF uploaded. Please upload a PDF first."}
    try:
        embedding_generator = EmbeddingGenerator()
        similar_chunk_indices = embedding_generator.similarity_search(
            request.question, current_vector_store.index.describe_index_stats())
        similar_chunks = [f"Chunk {idx}: Relevant information" for idx in similar_chunk_indices]
        answer = f"Based on the document, here are some relevant insights: {' '.join(similar_chunks)}"
        return {"status": "success", "question": request.question, "answer": answer}
    except Exception as e:
        return {"status": "error", "message": f"Error processing question: {str(e)}"}
  \<close>
  The handler does not assign the module variables.
\<close>

definition ask_question :: "env \<Rightarrow> app_state \<Rightarrow> string \<Rightarrow> response \<times> call list" where
  "ask_question env st question =
     (case current_vector_store st of
        None \<Rightarrow>
          ([(''status'', ''error''), (''message'', ''No PDF uploaded. Please upload a PDF first.'')], [])
      | Some store \<Rightarrow>
          (case
             bind_io (EmbeddingGenerator_init env) (\<lambda>embedding_generator.
             bind_io (external IndexDescribeStats (index_describe_stats env)) (\<lambda>stats.
             bind_io (similarity_search env question (Stats stats) 3) (\<lambda>similar_chunk_indices.
             let similar_chunks =
                   map (\<lambda>idx. ''Chunk '' @ str_nat idx @ '': Relevant information'')
                     similar_chunk_indices;
                 answer = ''Based on the document, here are some relevant insights: ''
                            @ join_space similar_chunks
             in return_io answer)))
           of
             (Inl e, calls) \<Rightarrow>
               ([(''status'', ''error''),
                 (''message'', ''Error processing question: '' @ str_of_error e)], calls)
           | (Inr answer, calls) \<Rightarrow>
               ([(''status'', ''success''), (''question'', question), (''answer'', answer)], calls)))"

section \<open>Sample collaborators\<close>

text \<open>
  Collaborators that always answer, for the closed instances below: a language model
  that splits at whitespace, marks \<open>the\<close>, \<open>a\<close> and \<open>is\<close> as stop words and takes a token as
  its own lemma; an embedding provider that gives every text the vector of its length
  and 1; a projection that keeps the first components and a refusal with the text of
  scikit-learn's full solver; an index with no entries.
\<close>

definition sample_nlp :: language_model where
  "sample_nlp text =
     map (\<lambda>w. \<lparr>tok_text = w, tok_is_stop = (w \<in> set [''the'', ''a'', ''is'']), tok_lemma = w\<rparr>)
       (str_split text)"

definition sample_env :: env where
  "sample_env =
     \<lparr>file_write = (\<lambda>path bytes. Inr ()),
      file_remove = (\<lambda>path. Inr ()),
      pdf_pages = (\<lambda>path. Inr [''Hello, World 42!'']),
      getenv_index_name = None,
      pinecone_init = Inr (),
      pinecone_list_indexes = Inr [''pdf-qa-index''],
      pinecone_create_index = (\<lambda>name vec_dim metric. Inr ()),
      pinecone_Index = (\<lambda>name. Inr ()),
      cohere_Client = Inr (),
      spacy_load = (\<lambda>name. Inr sample_nlp),
      co_embed = (\<lambda>texts input_type. Inr (map (\<lambda>t. [real (length t), 1]) texts)),
      pca_project = (\<lambda>c X. map (take c) X),
      pca_refusal = (\<lambda>c X. ''n_components='' @ (if c < 0 then ''-'' else []) @ str_nat (nat \<bar>c\<bar>)
                       @ '' must be between 0 and min(n_samples, n_features)=''
                       @ str_nat (min (length X) (case X of [] \<Rightarrow> 0 | row # _ \<Rightarrow> length row))
                       @ '' with svd_solver='' @ CHR 0x27 # ''full'' @ [CHR 0x27]),
      index_upsert = (\<lambda>vectors. Inr ()),
      index_query = (\<lambda>vector top_k include_metadata. Inr []),
      index_delete = (\<lambda>ids. Inr ()),
      index_describe_stats = Inr \<lparr>total_vector_count = 0, dimension = 768, index_fullness = 0\<rparr>\<rparr>"

definition sample_store :: vector_store where
  "sample_store = \<lparr>index_name = ''pdf-qa-index'', nlp = sample_nlp\<rparr>"

section \<open>Properties\<close>

subsection \<open>Lists, ranges and words\<close>

lemma foldl_append_map: "foldl (\<lambda>acc i. acc @ [f i]) a xs = a @ map f xs"
  by (induction xs arbitrary: a) auto

lemma ceil_div_less_iff:
  fixes a d len :: nat
  assumes "0 < d"
  shows "a < (len + d - 1) div d \<longleftrightarrow> a * d < len"
proof -
  have "a < (len + d - 1) div d \<longleftrightarrow> Suc a \<le> (len + d - 1) div d" by auto
  also have "\<dots> \<longleftrightarrow> Suc a * d \<le> len + d - 1"
    using assms by (simp add: less_eq_div_iff_mult_less_eq)
  also have "\<dots> \<longleftrightarrow> a * d < len" using assms by auto
  finally show ?thesis .
qed

lemma range_loop_nat:
  "0 < d \<Longrightarrow> range_loop (int i) (int len) (int d) =
     (if i < len then int i # range_loop (int (i + d)) (int len) (int d) else [])"
  by (subst range_loop.simps) simp

lemma range_loop_stride:
  fixes a d len :: nat
  assumes "0 < d"
  shows "range_loop (int (a * d)) (int len) (int d) = map (\<lambda>j. int (j * d)) [a..<(len + d - 1) div d]"
proof (induction "(len + d - 1) div d - a" arbitrary: a)
  case 0
  then have "\<not> a < (len + d - 1) div d" by simp
  then have "\<not> a * d < len" using ceil_div_less_iff [OF assms] by blast
  then have "range_loop (int (a * d)) (int len) (int d) = []"
    using range_loop_nat [OF assms, of "a * d" len] by simp
  then show ?case using 0 by simp
next
  case (Suc m)
  then have lt: "a < (len + d - 1) div d" by simp
  then have "a * d < len" using ceil_div_less_iff [OF assms] by blast
  then have "range_loop (int (a * d)) (int len) (int d)
      = int (a * d) # range_loop (int (a * d + d)) (int len) (int d)"
    using range_loop_nat [OF assms, of "a * d" len] by simp
  also have "a * d + d = Suc a * d" by simp
  also have "range_loop (int (Suc a * d)) (int len) (int d)
      = map (\<lambda>j. int (j * d)) [Suc a..<(len + d - 1) div d]"
    using Suc by (intro Suc.hyps(1)) simp
  finally show ?case using lt by (simp add: upt_conv_Cons)
qed

lemma py_slice_window: "py_slice xs (int i) (int i + int n) = take n (drop i xs)"
  by (auto simp: py_slice_def slice_index_def Let_def min_def nat_int_add)

lemma split_words_nospace:
  "list_all (\<lambda>c. \<not> isspace c) w \<Longrightarrow> split_words cur (w @ s) = split_words (cur @ w) s"
  by (induction w arbitrary: cur) simp_all

lemma split_words_word:
  assumes "list_all (\<lambda>c. \<not> isspace c) w" "w \<noteq> []"
  shows "split_words [] (w @ CHR '' '' # s) = w # split_words [] s"
proof -
  have "split_words [] (w @ CHR '' '' # s) = split_words w (CHR '' '' # s)"
    using split_words_nospace [OF assms(1), of "[]"] by simp
  also have "\<dots> = w # split_words [] s"
    using assms(2) by (simp add: isspace_def)
  finally show ?thesis .
qed

lemma str_split_join_space:
  "list_all (\<lambda>w. w \<noteq> [] \<and> list_all (\<lambda>c. \<not> isspace c) w) ws \<Longrightarrow> str_split (join_space ws) = ws"
proof (induction ws rule: join_space.induct)
  case 1
  show ?case by (simp add: str_split_def)
next
  case (2 w)
  then have w: "list_all (\<lambda>c. \<not> isspace c) w" "w \<noteq> []" by simp_all
  have "split_words [] (w @ []) = split_words ([] @ w) []"
    by (rule split_words_nospace [OF w(1)])
  then show ?case using w(2) by (simp add: str_split_def)
next
  case (3 w v ws)
  then have w: "list_all (\<lambda>c. \<not> isspace c) w" "w \<noteq> []"
    and r: "str_split (join_space (v # ws)) = v # ws" by simp_all
  have "str_split (join_space (w # v # ws)) = split_words [] (w @ CHR '' '' # join_space (v # ws))"
    by (simp add: str_split_def)
  also have "\<dots> = w # split_words [] (join_space (v # ws))"
    by (rule split_words_word [OF w])
  also have "\<dots> = w # v # ws"
    using r by (simp only: str_split_def)
  finally show ?case .
qed

lemma split_words_clean:
  "list_all (\<lambda>c. \<not> isspace c) cur \<Longrightarrow>
     list_all (\<lambda>w. w \<noteq> [] \<and> list_all (\<lambda>c. \<not> isspace c) w) (split_words cur s)"
  by (induction cur s rule: split_words.induct) simp_all

lemma str_split_clean:
  "list_all (\<lambda>w. w \<noteq> [] \<and> list_all (\<lambda>c. \<not> isspace c) w) (str_split s)"
  using split_words_clean [of "[]" s] by (simp add: str_split_def)

lemma list_all_window: "list_all P xs \<Longrightarrow> list_all P (take n (drop i xs))"
  unfolding list_all_iff by (meson in_set_takeD in_set_dropD)

lemma str_split_join_window:
  "str_split (join_space (take n (drop i (str_split s)))) = take n (drop i (str_split s))"
  by (rule str_split_join_space [OF list_all_window [OF str_split_clean]])

lemma split_text_into_chunks_stride:
  fixes n k :: nat
  assumes "k < n"
  shows "split_text_into_chunks text (int n) (int k) =
     Inr (map (\<lambda>j. join_space (take n (drop (j * (n - k)) (str_split text))))
            [0..<(length (str_split text) + (n - k) - 1) div (n - k)])"
proof -
  define ws where "ws = str_split text"
  define m where "m = (length ws + (n - k) - 1) div (n - k)"
  have d: "0 < n - k" and e: "int n - int k = int (n - k)" using assms by auto
  have "range_loop (int (0 * (n - k))) (int (length ws)) (int (n - k))
      = map (\<lambda>j. int (j * (n - k))) [0..<m]"
    unfolding m_def by (rule range_loop_stride [OF d])
  then have r: "py_range 0 (int (length ws)) (int n - int k)
      = Inr (map (\<lambda>j. int (j * (n - k))) [0..<m])"
    using d by (simp add: py_range_def e del: of_nat_diff of_nat_mult)
  have w: "join_space (py_slice ws (int (j * (n - k))) (int (j * (n - k)) + int n))
      = join_space (take n (drop (j * (n - k)) ws))" for j
    by (simp only: py_slice_window)
  have "split_text_into_chunks text (int n) (int k)
      = Inr (map (\<lambda>i. join_space (py_slice ws i (i + int n))) (map (\<lambda>j. int (j * (n - k))) [0..<m]))"
    by (simp only: split_text_into_chunks_def Let_def ws_def [symmetric] r sum.case
        foldl_append_map append_Nil)
  also have "\<dots> = Inr (map (\<lambda>j. join_space (take n (drop (j * (n - k)) ws))) [0..<m])"
    by (simp only: map_map comp_def w)
  finally show ?thesis unfolding ws_def m_def .
qed

lemma concat_strides:
  "concat (map (\<lambda>j. take d (drop (j * d) ws)) [0..<m]) = take (m * d) ws"
proof (induction m)
  case 0
  then show ?case by simp
next
  case (Suc m)
  have "take (m * d) ws @ take d (drop (m * d) ws) = take (m * d + d) ws"
    by (simp add: take_add)
  then show ?case using Suc by (simp add: add.commute)
qed

subsection \<open>Chunk sizes that are not larger than the overlap\<close>

text \<open>
  Claim C3 (amended).  The splitter has no guard of its own on \<open>chunk_size > overlap\<close>.
  The stride \<open>chunk_size - overlap\<close> goes to \<open>range\<close> as it is: when the two are equal the
  zero step makes \<open>range\<close> raise \<open>ValueError\<close>, and when \<open>chunk_size\<close> is smaller the
  negative step gives an empty range, so the call returns the empty list of chunks and
  raises nothing.
\<close>

theorem split_zero_or_negative_stride:
  "chunk_size \<le> overlap \<Longrightarrow>
     split_text_into_chunks text chunk_size overlap =
       (if chunk_size = overlap then Inl (ValueError ''range() arg 3 must not be zero'')
        else Inr [])"
proof -
  assume le: "chunk_size \<le> overlap"
  have "range_loop 0 (int (length (str_split text))) (chunk_size - overlap) = []"
    using le by (subst range_loop.simps) simp
  then show ?thesis
    by (simp add: split_text_into_chunks_def py_range_def)
qed

theorem split_zero_or_negative_stride_witness:
  "(2::int) \<le> 2 \<and> split_text_into_chunks ''a b c'' 2 2 =
      Inl (ValueError ''range() arg 3 must not be zero'')"
  using split_zero_or_negative_stride [of 2 2 "''a b c''"] by simp

text \<open>
  A chunk size below the overlap is accepted: no error of any kind is raised, and three
  words give no chunk at all.
\<close>

theorem split_no_configuration_guard:
  "split_text_into_chunks ''a b c'' 1 2 = Inr []"
proof -
  have "range_loop 0 (int (length (str_split ''a b c''))) (1 - 2) = []"
    by (subst range_loop.simps) simp
  then show ?thesis
    by (simp add: split_text_into_chunks_def py_range_def)
qed

subsection \<open>The chunks are the windows at the multiples of the stride\<close>

text \<open>
  Claim C4.  For a chunk size \<open>n\<close> and an overlap \<open>k\<close> (numbers of words) with \<open>k < n\<close>,
  the call returns a list of chunks, one for each start index \<open>0, n-k, 2(n-k), ...\<close> below
  the number of words: chunk \<open>j\<close> starts at word \<open>j(n-k)\<close>, it is the space-joined slice
  \<open>words[j(n-k) : j(n-k)+n]\<close>, splitting it gives back exactly the words of that slice, and
  it has at most \<open>n\<close> words; every multiple of the stride below the number of words is the
  start of a chunk.  The closed instance after the theorem is the example of the
  specification: \<open>"a b c d e f"\<close> with chunk size 4 and overlap 1 gives
  \<open>["a b c d", "d e f"]\<close>.
\<close>

theorem split_chunks_are_stride_windows:
  fixes n k :: nat
  assumes "k < n"
  shows "\<exists>chunks. split_text_into_chunks text (int n) (int k) = Inr chunks
     \<and> length chunks = (length (str_split text) + (n - k) - 1) div (n - k)
     \<and> (\<forall>j < length chunks.
           j * (n - k) < length (str_split text)
         \<and> chunks ! j = join_space (take n (drop (j * (n - k)) (str_split text)))
         \<and> str_split (chunks ! j) = take n (drop (j * (n - k)) (str_split text))
         \<and> length (str_split (chunks ! j)) \<le> n)
     \<and> (\<forall>i < length (str_split text). i mod (n - k) = 0 \<longrightarrow> i div (n - k) < length chunks)"
proof -
  define ws where "ws = str_split text"
  define d where "d = n - k"
  define m where "m = (length ws + d - 1) div d"
  define chunks where "chunks = map (\<lambda>j. join_space (take n (drop (j * d) ws))) [0..<m]"
  have d: "0 < d" using assms by (simp add: d_def)
  have eq: "split_text_into_chunks text (int n) (int k) = Inr chunks"
    unfolding chunks_def m_def d_def ws_def by (rule split_text_into_chunks_stride [OF assms])
  have len: "length chunks = m" by (simp add: chunks_def)
  have win: "j * d < length ws \<and> chunks ! j = join_space (take n (drop (j * d) ws))
      \<and> str_split (chunks ! j) = take n (drop (j * d) ws)
      \<and> length (str_split (chunks ! j)) \<le> n" if "j < length chunks" for j
  proof -
    have jm: "j < m" using that len by simp
    then have 1: "j * d < length ws" unfolding m_def using ceil_div_less_iff [OF d] by blast
    have 2: "chunks ! j = join_space (take n (drop (j * d) ws))"
      using jm by (simp add: chunks_def)
    have 3: "str_split (chunks ! j) = take n (drop (j * d) ws)"
      unfolding 2 ws_def by (rule str_split_join_window)
    show ?thesis using 1 2 3 by simp
  qed
  have starts: "i div d < length chunks" if "i < length ws" "i mod d = 0" for i
  proof -
    have "i div d * d = i" using that(2) by (simp add: mod_eq_0_iff_dvd)
    then have "i div d * d < length ws" using that(1) by simp
    then have "i div d < m" unfolding m_def using ceil_div_less_iff [OF d] by blast
    then show ?thesis using len by simp
  qed
  show ?thesis
    using eq len win starts unfolding ws_def [symmetric] d_def [symmetric] m_def [symmetric]
    by blast
qed

theorem split_example_a_to_f:
  "(1::nat) < 4 \<and> split_text_into_chunks ''a b c d e f'' (int 4) (int 1) = Inr [''a b c d'', ''d e f'']"
proof -
  have h: "(1::nat) < 4" by simp
  obtain chunks where c: "split_text_into_chunks ''a b c d e f'' (int 4) (int 1) = Inr chunks"
    and l: "length chunks = (length (str_split ''a b c d e f'') + (4 - 1) - 1) div (4 - 1)"
    and w: "\<forall>j < length chunks. chunks ! j = join_space (take 4 (drop (j * (4 - 1)) (str_split ''a b c d e f'')))"
    using split_chunks_are_stride_windows [OF h, of "''a b c d e f''"] by blast
  have s: "str_split ''a b c d e f'' = [''a'', ''b'', ''c'', ''d'', ''e'', ''f'']"
    by (simp add: str_split_def isspace_def)
  have l2: "length chunks = 2" using l unfolding s by simp
  then obtain x y where xy: "chunks = [x, y]"
    by (metis (no_types, opaque_lifting) One_nat_def Suc_1 length_0_conv length_Suc_conv)
  have "x = ''a b c d''" using w [rule_format, of 0] unfolding s xy by simp
  moreover have "y = ''d e f''" using w [rule_format, of 1] unfolding s xy by simp
  ultimately show ?thesis using c xy by simp
qed

subsection \<open>The strides of the chunks give the words back\<close>

text \<open>
  Claim C9.  For \<open>k < n\<close>, the first \<open>n-k\<close> words of every chunk, in order, followed by
  what is left of the last chunk after its first \<open>n-k\<close> words, are exactly the words of
  the text.
\<close>

theorem split_strides_rejoin:
  fixes n k :: nat
  assumes "k < n"
  shows "\<exists>chunks. split_text_into_chunks text (int n) (int k) = Inr chunks
     \<and> concat (map (\<lambda>c. take (n - k) (str_split c)) chunks)
         @ (if chunks = [] then [] else drop (n - k) (str_split (last chunks)))
       = str_split text"
proof -
  define ws where "ws = str_split text"
  define d where "d = n - k"
  define m where "m = (length ws + d - 1) div d"
  define chunks where "chunks = map (\<lambda>j. join_space (take n (drop (j * d) ws))) [0..<m]"
  have d: "0 < d" and dn: "d \<le> n" using assms by (simp_all add: d_def)
  have eq: "split_text_into_chunks text (int n) (int k) = Inr chunks"
    unfolding chunks_def m_def d_def ws_def by (rule split_text_into_chunks_stride [OF assms])
  have rt: "str_split (join_space (take n (drop (j * d) ws))) = take n (drop (j * d) ws)" for j
    unfolding ws_def by (rule str_split_join_window)
  have cover: "length ws \<le> m * d"
  proof (rule ccontr)
    assume "\<not> length ws \<le> m * d"
    then have "m * d < length ws" by simp
    then have "m < m" unfolding m_def using ceil_div_less_iff [OF d, of "(length ws + d - 1) div d" "length ws"] by blast
    then show False by simp
  qed
  have "concat (map (\<lambda>c. take d (str_split c)) chunks)
      = concat (map (\<lambda>j. take d (drop (j * d) ws)) [0..<m])"
    using dn by (simp add: chunks_def comp_def rt min_def)
  also have "\<dots> = ws" using cover by (simp add: concat_strides)
  finally have main: "concat (map (\<lambda>c. take d (str_split c)) chunks) = ws" .
  have rest: "drop d (str_split (last chunks)) = []" if "chunks \<noteq> []"
  proof -
    have m0: "0 < m" using that by (auto simp: chunks_def)
    then have "last chunks = join_space (take n (drop ((m - 1) * d) ws))"
      by (simp add: chunks_def last_map)
    then have "drop d (str_split (last chunks)) = drop d (take n (drop ((m - 1) * d) ws))"
      by (simp only: rt)
    also have "\<dots> = take (n - d) (drop (d + (m - 1) * d) ws)"
      by (simp add: drop_take)
    also have "d + (m - 1) * d = m * d"
      using m0 by (cases m) simp_all
    also have "drop (m * d) ws = []" using cover by simp
    finally show ?thesis by simp
  qed
  show ?thesis
    using eq main rest unfolding ws_def [symmetric] d_def [symmetric] by auto
qed

theorem split_strides_rejoin_witness:
  "(1::nat) < 4 \<and> (\<exists>chunks. split_text_into_chunks ''a b c d e f'' (int 4) (int 1) = Inr chunks
     \<and> concat (map (\<lambda>c. take (4 - 1) (str_split c)) chunks)
         @ (if chunks = [] then [] else drop (4 - 1) (str_split (last chunks)))
       = str_split ''a b c d e f'')"
proof -
  have h: "(1::nat) < 4" by simp
  show ?thesis using h split_strides_rejoin [OF h, of "''a b c d e f''"] by simp
qed

subsection \<open>Computations and their calls\<close>

lemma bind_io_Inl [simp]: "bind_io (Inl e, calls) f = (Inl e, calls)"
  by (simp add: bind_io_def)

lemma bind_io_Inr [simp]: "bind_io (Inr x, calls) f = (fst (f x), calls @ snd (f x))"
  by (cases "f x") (simp add: bind_io_def)

lemma bind_io_failing:
  assumes "\<And>x. isl (fst (f x))"
  shows "isl (fst (bind_io m f))"
proof (cases m)
  case (Pair r calls)
  then show ?thesis using assms by (cases r) simp_all
qed

lemma bind_io_calls:
  assumes "list_all P (snd m)" and "\<And>x. list_all P (snd (f x))"
  shows "list_all P (snd (bind_io m f))"
proof (cases m)
  case (Pair r calls)
  then show ?thesis using assms by (cases r) simp_all
qed

lemma bind_io_external_Inr [simp]:
  "bind_io (external c (Inr x)) f = (fst (f x), c # snd (f x))"
  by (simp add: external_def)

lemma bind_io_external_Inl [simp]:
  "bind_io (external c (Inl e)) f = (Inl e, [c])"
  by (simp add: external_def)

lemma bind_io_lift_Inr [simp]: "bind_io (lift_io (Inr x)) f = f x"
  by (simp add: lift_io_def)

lemma bind_io_lift_Inl [simp]: "bind_io (lift_io (Inl e)) f = (Inl e, [])"
  by (simp add: lift_io_def)

lemma bind_io_return [simp]: "bind_io (return_io x) f = f x"
  by (simp add: return_io_def)

subsection \<open>The upload handler\<close>

lemma extract_text_from_pdf_calls:
  "snd (extract_text_from_pdf env path) = [PdfRead path]"
  by (cases "pdf_pages env path") (simp_all add: extract_text_from_pdf_def return_io_def)

lemma PineconeVectorStore_init_calls:
  "list_all (\<lambda>c. (\<forall>texts ty. c \<noteq> CohereEmbed texts ty) \<and> (\<forall>vectors. c \<noteq> IndexUpsert vectors))
     (snd (PineconeVectorStore_init env name_arg vec_dim metric))"
  unfolding PineconeVectorStore_init_def Let_def create_index_if_not_exists_def
    EmbeddingGenerator_init_def TextPreprocessor_init_def
  by (intro bind_io_calls) (simp_all add: external_def return_io_def)

lemma getattr_upsert_embeddings:
  "\<exists>e. getattr_vector_store ''upsert_embeddings'' = Inl (AttributeError e)"
  by (simp add: getattr_vector_store_def PineconeVectorStore_attributes_def)

text \<open>
  Claim C1.  The handler looks up \<open>upsert_embeddings\<close> on the store, an attribute that
  \<open>PineconeVectorStore\<close> does not have (its method is \<open>upsert_documents\<close>).  So whatever
  the file and whatever the collaborators answer, the handler returns status \<open>error\<close>,
  leaves both module variables as they were, and has neither asked the provider for an
  embedding nor sent a vector to the index.
\<close>

theorem upload_pdf_never_succeeds:
  "\<exists>message calls.
     upload_pdf env st file = (([(''status'', ''error''), (''message'', message)], st), calls)
     \<and> list_all (\<lambda>c. (\<forall>texts ty. c \<noteq> CohereEmbed texts ty) \<and> (\<forall>vectors. c \<noteq> IndexUpsert vectors))
           calls"
proof -
  define temp_path where "temp_path = ''temp_'' @ filename file"
  define body where "body =
    bind_io (external (FileWrite temp_path (content file))
               (file_write env temp_path (content file))) (\<lambda>_.
    bind_io (extract_text_from_pdf env temp_path) (\<lambda>text.
    bind_io (lift_io (split_text_into_chunks (PDFProcessor_clean_text text) 500 50)) (\<lambda>text_chunks.
    bind_io (PineconeVectorStore_init env None 768 ''cosine'') (\<lambda>vector_store.
    bind_io (lift_io (getattr_vector_store ''upsert_embeddings'')) (\<lambda>attribute.
    bind_io (call_with_chunks env vector_store attribute text_chunks) (\<lambda>_.
    return_io (vector_store, text_chunks)))))))"
  obtain a where a: "getattr_vector_store ''upsert_embeddings'' = Inl (AttributeError a)"
    using getattr_upsert_embeddings by blast
  have failing: "isl (fst body)"
    unfolding body_def
    apply (rule bind_io_failing)
    apply (rule bind_io_failing)
    apply (rule bind_io_failing)
    apply (rule bind_io_failing)
    apply (simp add: a)
    done
  have calls: "list_all (\<lambda>c. (\<forall>texts ty. c \<noteq> CohereEmbed texts ty) \<and> (\<forall>vectors. c \<noteq> IndexUpsert vectors))
      (snd body)"
    unfolding body_def
    apply (rule bind_io_calls)
     apply (simp add: external_def)
    apply (rule bind_io_calls)
     apply (simp add: extract_text_from_pdf_calls)
    apply (rule bind_io_calls)
     apply (simp add: lift_io_def)
    apply (rule bind_io_calls)
     apply (rule PineconeVectorStore_init_calls)
    apply (simp add: a)
    done
  obtain e cs where body: "body = (Inl e, cs)"
    using failing by (cases body; cases "fst body") auto
  have "upload_pdf env st file =
      (([(''status'', ''error''), (''message'', ''Error processing PDF: '' @ str_of_error e)], st), cs)"
    unfolding upload_pdf_def Let_def
    unfolding temp_path_def [symmetric] body_def [symmetric] body
    by simp
  then show ?thesis using calls body by auto
qed

subsection \<open>Asking before any upload\<close>

text \<open>
  Claim C5.  When \<open>current_vector_store\<close> holds no store, \<open>ask_question\<close> returns status
  \<open>error\<close> with the message that no PDF was uploaded, and makes no call at all: neither
  the embedding provider nor the index is contacted.
\<close>

theorem ask_question_without_document:
  "current_vector_store st = None \<Longrightarrow>
     ask_question env st question =
       ([(''status'', ''error''), (''message'', ''No PDF uploaded. Please upload a PDF first.'')], [])"
  by (simp add: ask_question_def)

theorem ask_question_without_document_witness:
  "current_vector_store initial_state = None \<and>
   ask_question sample_env initial_state ''What is it about?'' =
     ([(''status'', ''error''), (''message'', ''No PDF uploaded. Please upload a PDF first.'')], [])"
  using ask_question_without_document [of initial_state sample_env "''What is it about?''"]
  by (simp add: initial_state_def)

text \<open>With a store in place the handler does go to the provider first.\<close>

lemma ask_question_with_document_calls:
  "current_vector_store st = Some store \<Longrightarrow>
     \<exists>calls. snd (ask_question env st question) = CohereClient # calls"
proof -
  assume s: "current_vector_store st = Some store"
  show ?thesis
  proof (cases "cohere_Client env")
    case (Inl e)
    then show ?thesis by (simp add: ask_question_def s EmbeddingGenerator_init_def)
  next
    case (Inr u)
    then show ?thesis
      by (simp add: ask_question_def s EmbeddingGenerator_init_def split: prod.splits sum.splits)
  qed
qed

subsection \<open>Identifiers of the upserted vectors\<close>

lemma enumerate_identifiers:
  "map (\<lambda>(idx, embedding). (str_nat idx, embedding)) (enumerate 0 xs)
     = zip (map str_nat [0..<length xs]) xs"
  by (simp add: enumerate_eq_zip zip_map1)

lemma generate_embeddings_array:
  assumes "co_embed env texts search_document = Inr embeddings"
    and "np_array embeddings = Inr embeddings"
  shows "generate_embeddings env texts = (Inr embeddings, [CohereEmbed texts search_document])"
  by (simp add: generate_embeddings_def assms lift_io_def)

lemma generate_embeddings_ragged:
  assumes "co_embed env texts search_document = Inr (row # rows)"
    and "\<not> list_all (\<lambda>r. length r = length row) rows"
  shows "\<exists>message. generate_embeddings env texts =
     (Inl (ValueError message), [CohereEmbed texts search_document])"
  using assms(2) by (simp add: generate_embeddings_def assms(1) np_array_def lift_io_def)

lemma sample_preprocess_hello:
  "join_space (preprocess_pipeline sample_nlp ''Hello, World 42!'') = ''hello world''"
  by code_simp

lemma sample_preprocess_cat:
  "join_space (preprocess_pipeline sample_nlp ''the cat is a cat'') = ''cat cat''"
  by code_simp

text \<open>
  Claim C7.  When the provider answers with one vector for each text it was sent, all of
  one length \<open>d\<close>, the optional reduction keeps the number of rows and the index accepts
  the vectors, then \<open>upsert_documents\<close> sends the preprocessed chunks to the provider in
  chunk order, sends the \<open>i\<close>-th resulting vector to the index under the identifier
  \<open>str(i)\<close>, counted from 0, and returns the number of chunks.  (Vectors of unequal
  length are refused by \<open>np.array\<close>, and nothing is upserted then.)
\<close>

theorem upsert_documents_identifiers:
  assumes "co_embed env (map (\<lambda>doc. join_space (preprocess_pipeline (nlp store) doc)) documents)
             search_document = Inr embeddings"
    and "length embeddings = length documents"
    and "list_all (\<lambda>row. length row = d) embeddings"
    and "(if reduce
          then reduce_dimensions (pca_project env) (pca_refusal env) embeddings target_dimension
          else Inr embeddings) = Inr reduced"
    and "length reduced = length embeddings"
    and "index_upsert env (zip (map str_nat [0..<length documents]) reduced) = Inr u"
  shows "upsert_documents env store documents reduce target_dimension =
     (Inr (length documents),
      [CohereEmbed (map (\<lambda>doc. join_space (preprocess_pipeline (nlp store) doc)) documents)
         search_document,
       IndexUpsert (zip (map str_nat [0..<length documents]) reduced)])"
proof -
  have n: "length reduced = length documents" using assms(2,5) by simp
  have a: "np_array embeddings = Inr embeddings"
    using assms(3) by (cases embeddings) (simp_all add: np_array_def)
  have r: "(if reduce
            then lift_io (reduce_dimensions (pca_project env) (pca_refusal env) embeddings
                            target_dimension)
            else return_io embeddings) = lift_io (Inr reduced)"
    using assms(4) by (simp add: lift_io_def return_io_def split: if_splits)
  show ?thesis
    unfolding upsert_documents_def Let_def
    by (simp add: generate_embeddings_array [OF assms(1) a] r enumerate_identifiers n assms(6)
        return_io_def)
qed

text \<open>Vectors of unequal length stop the ingestion before anything reaches the index.\<close>

lemma upsert_documents_ragged:
  assumes "co_embed env (map (\<lambda>doc. join_space (preprocess_pipeline (nlp store) doc)) documents)
             search_document = Inr (row # rows)"
    and "\<not> list_all (\<lambda>r. length r = length row) rows"
  shows "\<exists>message. upsert_documents env store documents reduce target_dimension =
     (Inl (ValueError message),
      [CohereEmbed (map (\<lambda>doc. join_space (preprocess_pipeline (nlp store) doc)) documents)
         search_document])"
proof -
  obtain message where "generate_embeddings env
      (map (\<lambda>doc. join_space (preprocess_pipeline (nlp store) doc)) documents)
      = (Inl (ValueError message),
         [CohereEmbed (map (\<lambda>doc. join_space (preprocess_pipeline (nlp store) doc)) documents)
            search_document])"
    using generate_embeddings_ragged [OF assms] by blast
  then show ?thesis
    unfolding upsert_documents_def Let_def by simp
qed

theorem upsert_documents_identifiers_witness:
  "co_embed sample_env
       (map (\<lambda>doc. join_space (preprocess_pipeline (nlp sample_store) doc))
          [''Hello, World 42!'', ''the cat is a cat'']) search_document = Inr [[11, 1], [7, 1]]
   \<and> length [[11, 1], [7, 1 :: real]] = length [''Hello, World 42!'', ''the cat is a cat'']
   \<and> list_all (\<lambda>row. length row = 2) [[11, 1], [7, 1 :: real]]
   \<and> index_upsert sample_env [(''0'', [11, 1]), (''1'', [7, 1])] = Inr ()
   \<and> upsert_documents sample_env sample_store [''Hello, World 42!'', ''the cat is a cat''] False 128 =
       (Inr 2,
        [CohereEmbed [''hello world'', ''cat cat''] search_document,
         IndexUpsert [(''0'', [11, 1]), (''1'', [7, 1])]])"
proof -
  let ?docs = "[''Hello, World 42!'', ''the cat is a cat'']"
  have p: "map (\<lambda>doc. join_space (preprocess_pipeline (nlp sample_store) doc)) ?docs
      = [''hello world'', ''cat cat'']"
    by (simp add: sample_store_def sample_preprocess_hello sample_preprocess_cat)
  have e: "co_embed sample_env
       (map (\<lambda>doc. join_space (preprocess_pipeline (nlp sample_store) doc)) ?docs)
       search_document = Inr [[11, 1], [7, 1]]"
    unfolding p by (simp add: sample_env_def)
  have l: "length [[11, 1], [7, 1 :: real]] = length ?docs" by simp
  have q: "list_all (\<lambda>row. length row = 2) [[11, 1], [7, 1 :: real]]" by simp
  have r: "(if False
            then reduce_dimensions (pca_project sample_env) (pca_refusal sample_env)
                   [[11, 1], [7, 1]] 128
            else Inr [[11, 1], [7, 1]]) = Inr [[11, 1], [7, 1 :: real]]" by simp
  have i: "map str_nat [0..<length ?docs] = [''0'', ''1'']"
    by (simp add: upt_rec str_nat.simps digit_def)
  have u: "index_upsert sample_env (zip (map str_nat [0..<length ?docs]) [[11, 1], [7, 1]]) = Inr ()"
    by (simp add: sample_env_def)
  show ?thesis
    using upsert_documents_identifiers [OF e l q r _ u] e q u unfolding p i by simp
qed

subsection \<open>What the ingestion path and the query paths send to the provider\<close>

text \<open>
  \<open>upsert_documents\<close> and \<open>query_index\<close> of the store send the same preprocessed string
  for the same text: the space-joined result of \<open>preprocess_pipeline\<close>.
\<close>

lemma generate_embeddings_first_call:
  "\<exists>calls. snd (generate_embeddings env texts) = CohereEmbed texts search_document # calls"
  by (cases "co_embed env texts search_document")
    (simp_all add: generate_embeddings_def lift_io_def)

lemma bind_io_first_call:
  "snd m = c # calls \<Longrightarrow> \<exists>calls'. snd (bind_io m f) = c # calls'"
  by (cases m; cases "fst m") auto

lemma upsert_documents_embeds_preprocessed:
  "\<exists>calls. snd (upsert_documents env store [text] reduce target_dimension) =
     CohereEmbed [join_space (preprocess_pipeline (nlp store) text)] search_document # calls"
proof -
  obtain calls where "snd (generate_embeddings env [join_space (preprocess_pipeline (nlp store) text)])
      = CohereEmbed [join_space (preprocess_pipeline (nlp store) text)] search_document # calls"
    using generate_embeddings_first_call by blast
  then show ?thesis
    unfolding upsert_documents_def Let_def by (simp add: bind_io_first_call)
qed

lemma query_index_embeds_preprocessed:
  "\<exists>calls. snd (query_index env store text top_k include_metadata) =
     CohereEmbed [join_space (preprocess_pipeline (nlp store) text)] search_document # calls"
proof -
  obtain calls where "snd (generate_embeddings env [join_space (preprocess_pipeline (nlp store) text)])
      = CohereEmbed [join_space (preprocess_pipeline (nlp store) text)] search_document # calls"
    using generate_embeddings_first_call by blast
  then show ?thesis
    unfolding query_index_def Let_def by (simp add: bind_io_first_call)
qed

text \<open>
  \<open>similarity_search\<close>, the search that the question handler runs, sends the question as
  it was typed.
\<close>

lemma similarity_search_embeds_unprocessed:
  "\<exists>calls. snd (similarity_search env query embedded_docs top_k) =
     CohereEmbed [query] search_query # calls"
  unfolding similarity_search_def
  by (rule bind_io_first_call [where calls = "[]"]) (simp add: external_def)

text \<open>
  Claim C2.  For the text \<open>Hello, World 42!\<close> the ingestion of the store sends
  \<open>hello world\<close> to the provider, and so does \<open>query_index\<close>.  \<open>similarity_search\<close>, which
  is what the question handler calls, sends \<open>Hello, World 42!\<close> itself, and so does the
  handler when a store is in place.  The strings that are embedded for the same text on
  the ingestion path and on the question path differ.
\<close>

theorem question_path_embeds_raw_question:
  "snd (upsert_documents sample_env sample_store [''Hello, World 42!''] False 128) =
     [CohereEmbed [''hello world''] search_document, IndexUpsert [(''0'', [11, 1])]]
   \<and> snd (query_index sample_env sample_store ''Hello, World 42!'' 5 False) =
     [CohereEmbed [''hello world''] search_document, IndexQuery [11, 1] 5 False]
   \<and> snd (similarity_search sample_env ''Hello, World 42!'' (Embeddings [[11, 1]]) 3) =
     [CohereEmbed [''Hello, World 42!''] search_query]
   \<and> snd (ask_question sample_env (initial_state\<lparr>current_vector_store := Some sample_store\<rparr>)
          ''Hello, World 42!'') =
     [CohereClient, IndexDescribeStats, CohereEmbed [''Hello, World 42!''] search_query]"
proof -
  have e: "co_embed sample_env [''hello world''] search_document = Inr [[11, 1]]"
    by (simp add: sample_env_def)
  have a: "np_array [[11, 1]] = Inr [[11, 1]]"
    by (simp add: np_array_def)
  have g: "generate_embeddings sample_env [''hello world'']
      = (Inr [[11, 1]], [CohereEmbed [''hello world''] search_document])"
    by (rule generate_embeddings_array [OF e a])
  have 1: "snd (upsert_documents sample_env sample_store [''Hello, World 42!''] False 128) =
     [CohereEmbed [''hello world''] search_document, IndexUpsert [(''0'', [11, 1])]]"
    unfolding upsert_documents_def Let_def
    by (simp add: sample_store_def sample_preprocess_hello g enumerate_identifiers
        str_nat.simps digit_def) (simp add: sample_env_def return_io_def)
  have 2: "snd (query_index sample_env sample_store ''Hello, World 42!'' 5 False) =
     [CohereEmbed [''hello world''] search_document, IndexQuery [11, 1] 5 False]"
    unfolding query_index_def Let_def
    by (simp add: sample_store_def sample_preprocess_hello g) (simp add: external_def)
  have q: "co_embed sample_env [''Hello, World 42!''] search_query = Inr [[16, 1]]"
    by (simp add: sample_env_def)
  have 3: "snd (similarity_search sample_env ''Hello, World 42!'' (Embeddings [[11, 1]]) 3) =
     [CohereEmbed [''Hello, World 42!''] search_query]"
    unfolding similarity_search_def
    by (simp add: q np_array_def return_io_def)
  have 4: "snd (ask_question sample_env (initial_state\<lparr>current_vector_store := Some sample_store\<rparr>)
          ''Hello, World 42!'') =
     [CohereClient, IndexDescribeStats, CohereEmbed [''Hello, World 42!''] search_query]"
    unfolding ask_question_def EmbeddingGenerator_init_def similarity_search_def
    by (simp add: q) (simp add: sample_env_def)
  show ?thesis using 1 2 3 4 by simp
qed

subsection \<open>Dimension reduction\<close>

text \<open>
  Claim C6 (amended).  On \<open>n\<close> vectors of dimension \<open>d\<close> the reduction asks the PCA for
  \<open>min(target_dimensions, d)\<close> components.  When that number is not negative and not
  larger than \<open>n\<close>, the result is the projection of the vectors onto that many
  components; otherwise the PCA call raises \<open>ValueError\<close> and the reduction raises it
  again.  So a target above \<open>d\<close> is clamped to \<open>d\<close>, but the call still fails when the
  clamped number exceeds the number of vectors.
\<close>

theorem reduce_dimensions_clamped:
  assumes "length X = n" and "list_all (\<lambda>row. length row = d) X" and "0 < n" and "0 < d"
  shows "reduce_dimensions project refusal X target =
     (if 0 \<le> min target (int d) \<and> min target (int d) \<le> int n
      then Inr (project (nat (min target (int d))) X)
      else Inl (ValueError (refusal (min target (int d)) X)))"
proof -
  obtain row rows where X: "X = row # rows" using assms(1,3) by (cases X) auto
  then have row: "length row = d" using assms(2) by simp
  have n: "length rows = n - 1" using X assms(1) by auto
  show ?thesis
    unfolding reduce_dimensions_def shape1_def pca_fit_transform_def Let_def X
    using assms(3,4) X assms(1) by (auto simp: row)
qed

theorem reduce_dimensions_clamped_witness:
  "length [[11, 1], [7, 1 :: real]] = 2 \<and> list_all (\<lambda>row. length row = 2) [[11, 1], [7, 1 :: real]]
   \<and> reduce_dimensions (pca_project sample_env) (pca_refusal sample_env) [[11, 1], [7, 1]] 128 =
       Inr [[11, 1], [7, 1]]"
  using reduce_dimensions_clamped [of "[[11, 1], [7, 1]]" 2 2 "pca_project sample_env"
      "pca_refusal sample_env" 128]
  by (simp add: sample_env_def)

text \<open>
  For 50 vectors of dimension 100 and the target 1000 the clamp gives 100 components,
  more than the 50 samples: the call raises \<open>ValueError\<close> and returns no vectors.
\<close>

theorem reduce_dimensions_fifty_by_hundred:
  "reduce_dimensions (pca_project sample_env) (pca_refusal sample_env)
     (replicate 50 (replicate 100 0)) 1000 =
     Inl (ValueError (''n_components=100 must be between 0 and min(n_samples, n_features)=50 ''
            @ ''with svd_solver='' @ CHR 0x27 # ''full'' @ [CHR 0x27]))"
proof -
  have r: "replicate 50 (replicate 100 (0 :: real)) = replicate 100 0 # replicate 49 (replicate 100 0)"
    by (simp add: numeral_eq_Suc)
  have m: "pca_refusal sample_env 100 (replicate 50 (replicate 100 0)) =
      ''n_components=100 must be between 0 and min(n_samples, n_features)=50 ''
        @ ''with svd_solver='' @ CHR 0x27 # ''full'' @ [CHR 0x27]"
    unfolding r by (simp add: sample_env_def str_nat.simps digit_def)
  have "reduce_dimensions (pca_project sample_env) (pca_refusal sample_env)
      (replicate 100 0 # replicate 49 (replicate 100 0)) 1000 =
      Inl (ValueError (pca_refusal sample_env 100 (replicate 100 0 # replicate 49 (replicate 100 0))))"
    by (simp add: reduce_dimensions_def shape1_def pca_fit_transform_def Let_def)
  then show ?thesis by (simp only: r [symmetric] m)
qed

subsection \<open>The similarity ranking\<close>

lemma argsort_sorted: "sorted (map (\<lambda>i. xs ! i) (argsort xs))"
  by (simp add: argsort_def)

lemma argsort_length: "length (argsort xs) = length xs"
  by (simp add: argsort_def)

lemma argsort_set: "set (argsort xs) = {..<length xs}"
  by (auto simp: argsort_def)

lemma argsort_distinct: "distinct (argsort xs)"
  by (simp add: argsort_def)

text \<open>
  For a positive \<open>top_k\<close> the search returns at most \<open>top_k\<close> indices of documents, each
  once, in descending order of their similarities.
\<close>

lemma similarity_search_ranking:
  assumes "co_embed env [query] search_query = Inr (q # others)"
    and "np_dot embedded_docs q = Inr similarities"
    and "0 < top_k"
  shows "\<exists>indices.
     similarity_search env query embedded_docs top_k = (Inr indices, [CohereEmbed [query] search_query])
     \<and> length indices = min (nat top_k) (length similarities)
     \<and> sorted (rev (map (\<lambda>i. similarities ! i) indices))
     \<and> distinct indices
     \<and> set indices \<subseteq> {..<length similarities}"
proof -
  define n where "n = length similarities"
  define indices where "indices = rev (drop (n - nat top_k) (argsort similarities))"
  have s: "slice_index (length (argsort similarities)) (- top_k) = n - nat top_k"
    using assms(3) by (auto simp: slice_index_def argsort_length n_def)
  have eq: "similarity_search env query embedded_docs top_k =
      (Inr indices, [CohereEmbed [query] search_query])"
    unfolding similarity_search_def indices_def
    by (simp add: assms(1,2) return_io_def py_slice_from_def s)
  have len: "length indices = min (nat top_k) n"
    by (auto simp: indices_def argsort_length n_def)
  have "sorted (drop (n - nat top_k) (map (\<lambda>i. similarities ! i) (argsort similarities)))"
    by (rule sorted_wrt_drop [OF argsort_sorted])
  then have srt: "sorted (rev (map (\<lambda>i. similarities ! i) indices))"
    by (simp add: indices_def rev_map drop_map)
  have dis: "distinct indices"
    by (simp add: indices_def argsort_distinct)
  have sub: "set indices \<subseteq> {..<length similarities}"
    using set_drop_subset [of "n - nat top_k" "argsort similarities"]
    by (simp add: indices_def argsort_set)
  show ?thesis using eq len srt dis sub unfolding n_def by blast
qed

text \<open>
  Claim C8.  With \<open>top_k = 0\<close> the slice \<open>[-top_k:]\<close> is \<open>[0:]\<close>, the whole array: for three
  documents with the similarities 2, 6 and 4 the search returns all three indices, in
  descending order of similarity, and not at most zero of them.
\<close>

theorem similarity_search_top_k_zero:
  "similarity_search sample_env ''ab'' (Embeddings [[1, 0], [3, 0], [2, 0]]) 0 =
     (Inr [1, 2, 0], [CohereEmbed [''ab''] search_query])"
proof -
  have e: "co_embed sample_env [''ab''] search_query = Inr [[2, 1]]"
    by (simp add: sample_env_def)
  have d: "np_dot (Embeddings [[1, 0], [3, 0], [2, 0]]) [2, 1] = Inr [2, 6, 4]"
    by (simp add: np_array_def dot_def)
  have a: "argsort [2, 6, 4] = [0, 2, 1]"
    by (simp add: argsort_def upt_rec)
  show ?thesis
    unfolding similarity_search_def
    by (simp add: e d a return_io_def py_slice_from_def slice_index_def del: np_dot.simps)
qed

subsection \<open>Cleaning of the extracted text\<close>

lemma sub_whitespace_spaces:
  "list_all (\<lambda>c. isspace c \<longrightarrow> c = CHR '' '') (sub_whitespace in_run s)"
  by (induction s arbitrary: in_run) simp_all

lemma sub_whitespace_member:
  "c \<in> set (sub_whitespace in_run s) \<Longrightarrow> isspace c \<Longrightarrow> c = CHR '' ''"
  using sub_whitespace_spaces [of in_run s] unfolding list_all_iff by blast

lemma set_strip: "set (strip s) \<subseteq> set s"
proof -
  have "set (dropWhile isspace (rev (dropWhile isspace s))) \<subseteq> set (rev (dropWhile isspace s))"
    by (meson set_dropWhileD subsetI)
  moreover have "set (dropWhile isspace s) \<subseteq> set s"
    by (meson set_dropWhileD subsetI)
  ultimately show ?thesis by (auto simp: strip_def)
qed

text \<open>
  The cleaned text has only ASCII letters, digits, periods, commas and the space
  character, and it neither starts nor ends with whitespace.
\<close>

lemma PDFProcessor_clean_text_alphabet:
  "list_all (\<lambda>c. ascii_letter c \<or> ascii_digit c \<or> c = CHR ''.'' \<or> c = CHR '','' \<or> c = CHR '' '')
     (PDFProcessor_clean_text text)"
proof -
  have "ascii_letter c \<or> ascii_digit c \<or> c = CHR ''.'' \<or> c = CHR '','' \<or> c = CHR '' ''"
    if c: "c \<in> set (PDFProcessor_clean_text text)" for c
  proof -
    have "c \<in> set (filter (\<lambda>c. ascii_letter c \<or> ascii_digit c \<or> isspace c
                              \<or> c = CHR ''.'' \<or> c = CHR '','') (sub_whitespace False text))"
      using c set_strip unfolding PDFProcessor_clean_text_def Let_def by blast
    then have k: "ascii_letter c \<or> ascii_digit c \<or> isspace c \<or> c = CHR ''.'' \<or> c = CHR '',''"
      and m: "c \<in> set (sub_whitespace False text)" by simp_all
    show ?thesis using k sub_whitespace_member [OF m] by blast
  qed
  then show ?thesis unfolding list_all_iff by blast
qed

lemma strip_ends:
  assumes "strip s = c # cs"
  shows "\<not> isspace c \<and> \<not> isspace (last (c # cs))"
proof -
  define ys where "ys = dropWhile isspace s"
  define zs where "zs = dropWhile isspace (rev ys)"
  have r: "rev zs = c # cs" using assms by (simp add: strip_def ys_def zs_def)
  then have z: "zs \<noteq> []" by auto
  have 1: "\<not> isspace (hd zs)" using z hd_dropWhile unfolding zs_def by blast
  have 2: "hd zs = last (c # cs)" using r z by (metis hd_rev rev_rev_ident)
  have 3: "last zs = c" using r z by (metis last_rev list.sel(1) rev_rev_ident)
  have 4: "last zs = last (rev ys)"
    using z unfolding zs_def by (metis append_Nil2 last_appendR takeWhile_dropWhile_id)
  have "rev ys \<noteq> []" using z unfolding zs_def by auto
  then have y: "ys \<noteq> []" by simp
  then have 5: "last (rev ys) = hd ys" by (simp add: last_rev)
  have 6: "\<not> isspace (hd ys)" using y hd_dropWhile unfolding ys_def by blast
  show ?thesis using 1 2 3 4 5 6 by simp
qed

lemma PDFProcessor_clean_text_stripped:
  "PDFProcessor_clean_text text = c # cs \<Longrightarrow> \<not> isspace c \<and> \<not> isspace (last (c # cs))"
  unfolding PDFProcessor_clean_text_def Let_def by (rule strip_ends)

text \<open>
  Claim C10.  The whitespace is collapsed before the other characters are removed, so a
  character that is removed between two spaces leaves both of them: \<open>a ! b\<close> is cleaned
  to \<open>a\<close>, two spaces, \<open>b\<close>.  Digits, periods and commas are kept.
\<close>

theorem PDFProcessor_clean_text_double_space:
  "PDFProcessor_clean_text ''a ! b'' = ''a  b''
   \<and> PDFProcessor_clean_text '' Hi, 4.2 #b '' = ''Hi, 4.2 b''"
  by code_simp

end
